theory Spec2Isabelle
  imports Complex_Main
begin

section \<open>JavaScript numbers\<close>

text \<open>
  The payroll engine computes on JavaScript numbers. A number is either finite or one of
  the three special values that division by zero and the coercion of \<open>undefined\<close>
  produce. Finite arithmetic is exact here: the rounding of IEEE doubles, overflow to
  infinity and the sign of zero are abstracted away, the special values are not. What is
  proved below about sums, products and quotients is therefore stated through these
  operations, in the shape the code computes them, and not through real arithmetic;
  comparisons, and doubling, are the same on doubles and on reals.
\<close>

datatype jsnum = Fin real | PInf | NInf | NaN

fun js_neg :: "jsnum \<Rightarrow> jsnum" where
  "js_neg (Fin a) = Fin (- a)"
| "js_neg PInf = NInf"
| "js_neg NInf = PInf"
| "js_neg NaN = NaN"

text \<open>\<open>a + b\<close> on two numbers.\<close>

fun js_add :: "jsnum \<Rightarrow> jsnum \<Rightarrow> jsnum" where
  "js_add (Fin a) (Fin b) = Fin (a + b)"
| "js_add NaN _ = NaN"
| "js_add _ NaN = NaN"
| "js_add PInf NInf = NaN"
| "js_add NInf PInf = NaN"
| "js_add PInf _ = PInf"
| "js_add _ PInf = PInf"
| "js_add NInf _ = NInf"
| "js_add _ NInf = NInf"

text \<open>\<open>a - b\<close>.\<close>

definition js_sub :: "jsnum \<Rightarrow> jsnum \<Rightarrow> jsnum" where
  "js_sub a b = js_add a (js_neg b)"

text \<open>\<open>a * b\<close>: infinity times zero is NaN.\<close>

fun js_mul :: "jsnum \<Rightarrow> jsnum \<Rightarrow> jsnum" where
  "js_mul (Fin a) (Fin b) = Fin (a * b)"
| "js_mul NaN _ = NaN"
| "js_mul _ NaN = NaN"
| "js_mul PInf (Fin b) = (if b = 0 then NaN else if 0 < b then PInf else NInf)"
| "js_mul NInf (Fin b) = (if b = 0 then NaN else if 0 < b then NInf else PInf)"
| "js_mul (Fin a) PInf = (if a = 0 then NaN else if 0 < a then PInf else NInf)"
| "js_mul (Fin a) NInf = (if a = 0 then NaN else if 0 < a then NInf else PInf)"
| "js_mul PInf PInf = PInf"
| "js_mul NInf NInf = PInf"
| "js_mul PInf NInf = NInf"
| "js_mul NInf PInf = NInf"

text \<open>
  \<open>a / b\<close>: a nonzero finite number divided by zero is an infinity, zero divided by zero
  is NaN; nothing is raised.
\<close>

fun js_div :: "jsnum \<Rightarrow> jsnum \<Rightarrow> jsnum" where
  "js_div (Fin a) (Fin b) =
     (if b = 0 then (if a = 0 then NaN else if 0 < a then PInf else NInf)
      else Fin (a / b))"
| "js_div NaN _ = NaN"
| "js_div _ NaN = NaN"
| "js_div (Fin a) PInf = Fin 0"
| "js_div (Fin a) NInf = Fin 0"
| "js_div PInf (Fin b) = (if 0 \<le> b then PInf else NInf)"
| "js_div NInf (Fin b) = (if 0 \<le> b then NInf else PInf)"
| "js_div PInf PInf = NaN"
| "js_div PInf NInf = NaN"
| "js_div NInf PInf = NaN"
| "js_div NInf NInf = NaN"

text \<open>\<open>Math.abs\<close> and \<open>Math.round\<close> (half rounds up).\<close>

fun js_abs :: "jsnum \<Rightarrow> jsnum" where
  "js_abs (Fin a) = Fin \<bar>a\<bar>"
| "js_abs PInf = PInf"
| "js_abs NInf = PInf"
| "js_abs NaN = NaN"

fun js_round :: "jsnum \<Rightarrow> jsnum" where
  "js_round (Fin a) = Fin (of_int \<lfloor>a + 1 / 2\<rfloor>)"
| "js_round x = x"

text \<open>The comparisons \<open>a < b\<close>, \<open>a <= b\<close>, \<open>a > b\<close>, \<open>a >= b\<close>: false whenever NaN is involved.\<close>

fun js_lt :: "jsnum \<Rightarrow> jsnum \<Rightarrow> bool" where
  "js_lt (Fin a) (Fin b) = (a < b)"
| "js_lt NaN _ = False"
| "js_lt _ NaN = False"
| "js_lt PInf _ = False"
| "js_lt _ NInf = False"
| "js_lt NInf _ = True"
| "js_lt _ PInf = True"

fun js_le :: "jsnum \<Rightarrow> jsnum \<Rightarrow> bool" where
  "js_le (Fin a) (Fin b) = (a \<le> b)"
| "js_le NaN _ = False"
| "js_le _ NaN = False"
| "js_le NInf _ = True"
| "js_le _ PInf = True"
| "js_le PInf _ = False"
| "js_le _ NInf = False"

definition js_gt :: "jsnum \<Rightarrow> jsnum \<Rightarrow> bool" where
  "js_gt a b = js_lt b a"

definition js_ge :: "jsnum \<Rightarrow> jsnum \<Rightarrow> bool" where
  "js_ge a b = js_le b a"

text \<open>
  A numeric field of a record parsed from JSON is either missing (\<open>undefined\<close>) or a
  number. In arithmetic and comparisons \<open>undefined\<close> is coerced to NaN.
\<close>

fun to_number :: "jsnum option \<Rightarrow> jsnum" where
  "to_number None = NaN"
| "to_number (Some x) = x"

section \<open>Data model\<close>

text \<open>
  An employee record as the engine receives it. Every field the code reads may be
  missing; a field that is present has the type of the payroll schema.
\<close>

record employee =
  employee_id :: "string option"
  name :: "string option"
  department :: "string option"
  location :: "string option"
  salary :: "jsnum option"
  bonus :: "jsnum option"
  deductions :: "jsnum option"

text \<open>Slabs: \<open>{min, max, rate}\<close> for income tax, \<open>{min, max, tax}\<close> for professional tax.\<close>

record slab =
  min_slab :: jsnum
  max_slab :: jsnum

record income_slab = slab +
  rate :: jsnum

record pt_slab = slab +
  tax :: jsnum

text \<open>
  The rule table \<open>TAX_RULES\<close>. It is the empty object when loading failed, so every
  section may be missing. \<open>professional_tax\<close> maps a location name to its slab table;
  the fallback table is the one under the key \<open>default\<close>. The map holds the keys of the
  configuration file, the object's own properties; the properties it inherits are
  \<open>object_prototype_keys\<close> below.
\<close>

record tax_rules =
  professional_tax :: "(string \<Rightarrow> pt_slab list option) option"
  income_tax_slabs :: "income_slab list option"
  social_security_percent :: "jsnum option"

record breakdown =
  company_tax :: jsnum
  social_security :: jsnum
  professional_tax_b :: jsnum
  personal_deductions :: "jsnum option"
  total_deductions :: jsnum

record net_pay_result =
  employee_id_r :: "string option"
  gross_pay :: jsnum
  net_pay :: jsnum
  breakdown :: breakdown

text \<open>
  What the code throws: an \<open>Error\<close> with its message, or the \<open>TypeError\<close> of calling
  \<open>find\<close> on a value that has no such method.
\<close>

datatype js_error = Error string | TypeError

section \<open>Net pay calculator\<close>

text \<open>The predicate both slab lookups pass to \<open>find\<close>.\<close>

definition in_slab :: "jsnum \<Rightarrow> 'a slab_scheme \<Rightarrow> bool" where
  "in_slab grossPay s \<longleftrightarrow> js_ge grossPay (min_slab s) \<and> js_le grossPay (max_slab s)"

definition calculateIncomeTax :: "jsnum \<Rightarrow> income_slab list \<Rightarrow> jsnum" where
  "calculateIncomeTax grossPay slabs =
     (case List.find (in_slab grossPay) slabs of
        Some applicableSlab \<Rightarrow> js_mul grossPay (rate applicableSlab)
      | None \<Rightarrow> Fin 0)"

definition calculateSlabTax :: "jsnum \<Rightarrow> pt_slab list \<Rightarrow> jsnum" where
  "calculateSlabTax grossPay slabs =
     (case List.find (in_slab grossPay) slabs of
        Some applicableSlab \<Rightarrow> tax applicableSlab
      | None \<Rightarrow> Fin 0)"

text \<open>A missing location is the property key \<open>undefined\<close>.\<close>

fun property_key :: "string option \<Rightarrow> string" where
  "property_key None = ''undefined''"
| "property_key (Some k) = k"

text \<open>
  The rule table is a plain object, so a property read also finds what every object
  inherits from \<open>Object.prototype\<close>. These are its property names; each of them reads as
  a function (\<open>__proto__\<close> as the prototype object itself): a truthy value that is not an
  array and has no \<open>find\<close> method.
\<close>

definition object_prototype_keys :: "string list" where
  "object_prototype_keys =
     [''constructor'', ''__defineGetter__'', ''__defineSetter__'', ''hasOwnProperty'',
      ''__lookupGetter__'', ''__lookupSetter__'', ''isPrototypeOf'', ''propertyIsEnumerable'',
      ''toString'', ''valueOf'', ''__proto__'', ''toLocaleString'']"

text \<open>
  \<open>TAX_RULES.professional_tax[employee.location] || TAX_RULES.professional_tax.default\<close>.
  A slab table of the configuration is an array, hence truthy, and is kept. So is an
  inherited property when the location is no key of the configuration but names one.
  Otherwise the left operand is \<open>undefined\<close> and the right one is taken, which is
  \<open>undefined\<close> again when there is no default table.
\<close>

datatype location_rules = SlabTable "pt_slab list" | InheritedProperty | NoRules

definition locationRules ::
    "(string \<Rightarrow> pt_slab list option) \<Rightarrow> string option \<Rightarrow> location_rules" where
  "locationRules pt loc =
     (case pt (property_key loc) of
        Some slabs \<Rightarrow> SlabTable slabs
      | None \<Rightarrow>
          if property_key loc \<in> set object_prototype_keys then InheritedProperty
          else (case pt ''default'' of
                  Some slabs \<Rightarrow> SlabTable slabs
                | None \<Rightarrow> NoRules))"

text \<open>
  \<open>calculateNetPay\<close>. Calling \<open>find\<close> on a missing slab section, on an inherited property
  or on \<open>undefined\<close> throws a type error.
\<close>

definition calculateNetPay :: "tax_rules \<Rightarrow> employee option \<Rightarrow> js_error + net_pay_result" where
  "calculateNetPay TAX_RULES emp =
     (case emp of
        None \<Rightarrow> Inl (Error ''Employee data is required.'')
      | Some e \<Rightarrow>
     (case professional_tax TAX_RULES of
        None \<Rightarrow> Inl (Error ''Tax rules are not loaded.'')
      | Some pt \<Rightarrow>
     (let grossPay = js_add (to_number (salary e)) (to_number (bonus e)) in
      case income_tax_slabs TAX_RULES of
        None \<Rightarrow> Inl TypeError
      | Some slabs \<Rightarrow>
     (let companyTax = calculateIncomeTax grossPay slabs;
          socialSecurity = js_mul grossPay (to_number (social_security_percent TAX_RULES)) in
      case locationRules pt (location e) of
        InheritedProperty \<Rightarrow> Inl TypeError
      | NoRules \<Rightarrow> Inl TypeError
      | SlabTable locRules \<Rightarrow>
     (let professionalTax = calculateSlabTax grossPay locRules;
          personalDeductions = deductions e;
          totalDeductions =
            js_add (js_add (js_add companyTax socialSecurity) professionalTax)
              (to_number personalDeductions);
          netPay = js_sub grossPay totalDeductions
      in Inr \<lparr> employee_id_r = employee_id e,
                gross_pay = grossPay,
                net_pay = netPay,
                breakdown = \<lparr> company_tax = companyTax,
                              social_security = socialSecurity,
                              professional_tax_b = professionalTax,
                              personal_deductions = personalDeductions,
                              total_deductions = totalDeductions \<rparr> \<rparr>)))))"

section \<open>Anomaly detection\<close>

text \<open>A record of the payroll history store.\<close>

record history_record =
  employee_id_h :: string
  pay_period_h :: string
  net_pay_h :: jsnum

datatype level = REVIEW | ANOMALY

text \<open>
  The reason of a flag is a message built from a template. It is kept as the template's
  name with the values the template embeds, so that no number has to be printed.
\<close>

datatype reason =
    NetPayJump jsnum jsnum jsnum
  | NetPayChange jsnum jsnum jsnum
  | SalaryPeer3x jsnum jsnum "string option" "string option"
  | SalaryPeer1_5x jsnum jsnum "string option" "string option"
  | NetPayNegative
  | BonusOver200

record flag =
  level :: level
  reason :: reason

datatype status = CLEAN | REVIEW_REQUIRED | ANOMALY_DETECTED

record flag_group =
  employee_id_g :: "string option"
  name_g :: "string option"
  flags :: "flag list"

record anomaly_report =
  pay_period :: string
  status :: status
  report :: "flag_group list"

subsection \<open>Strategy 1: historical variance\<close>

definition employeeHistory :: "employee \<Rightarrow> history_record list \<Rightarrow> history_record list" where
  "employeeHistory e historyDB = filter (\<lambda>h. Some (employee_id_h h) = employee_id e) historyDB"

definition avgHistoryNetPay :: "history_record list \<Rightarrow> jsnum" where
  "avgHistoryNetPay recentHistory =
     (let total = foldl (\<lambda>acc record. js_add acc (net_pay_h record)) (Fin 0) recentHistory
      in js_div total (Fin (real (length recentHistory))))"

definition detectHistoricalVariance ::
    "employee \<Rightarrow> net_pay_result \<Rightarrow> history_record list \<Rightarrow> flag list" where
  "detectHistoricalVariance e proposedPay historyDB =
     (if length (employeeHistory e historyDB) < 3 then []
      else
        let recentHistory = take 6 (employeeHistory e historyDB);
            avg = avgHistoryNetPay recentHistory;
            currentNetPay = net_pay proposedPay;
            percentChange = js_div (js_sub currentNetPay avg) avg
        in if js_gt (js_abs percentChange) (Fin 0.5) then
             [\<lparr> level = ANOMALY,
                reason = NetPayJump (js_round (js_mul percentChange (Fin 100)))
                           (js_round avg) (js_round currentNetPay) \<rparr>]
           else if js_gt (js_abs percentChange) (Fin 0.2) then
             [\<lparr> level = REVIEW,
                reason = NetPayChange (js_round (js_mul percentChange (Fin 100)))
                           (js_round avg) (js_round currentNetPay) \<rparr>]
           else [])"

subsection \<open>Strategy 2: peer variance\<close>

definition peerGroup :: "employee \<Rightarrow> employee list \<Rightarrow> employee list" where
  "peerGroup e proposedPayroll =
     filter (\<lambda>p. department p = department e \<and>
                 location p = location e \<and>
                 employee_id p \<noteq> employee_id e) proposedPayroll"

definition avgPeerSalary :: "employee list \<Rightarrow> jsnum" where
  "avgPeerSalary peers =
     (let total = foldl (\<lambda>acc p. js_add acc (to_number (salary p))) (Fin 0) peers
      in js_div total (Fin (real (length peers))))"

definition detectPeerVariance :: "employee \<Rightarrow> employee list \<Rightarrow> flag list" where
  "detectPeerVariance e proposedPayroll =
     (if length (peerGroup e proposedPayroll) < 1 then []
      else
        let avg = avgPeerSalary (peerGroup e proposedPayroll);
            currentSalary = to_number (salary e)
        in if js_gt currentSalary (js_mul avg (Fin 3)) then
             [\<lparr> level = ANOMALY,
                reason = SalaryPeer3x currentSalary (js_round avg) (department e) (location e) \<rparr>]
           else if js_gt currentSalary (js_mul avg (Fin 1.5)) then
             [\<lparr> level = REVIEW,
                reason = SalaryPeer1_5x currentSalary (js_round avg) (department e) (location e) \<rparr>]
           else [])"

subsection \<open>Strategy 3: absolute rule checks\<close>

definition detectAbsoluteRules :: "employee \<Rightarrow> net_pay_result \<Rightarrow> flag list" where
  "detectAbsoluteRules e proposedPay =
     (if js_lt (net_pay proposedPay) (Fin 0)
      then [\<lparr> level = ANOMALY, reason = NetPayNegative \<rparr>] else []) @
     (if js_gt (to_number (bonus e)) (js_mul (to_number (salary e)) (Fin 2))
      then [\<lparr> level = REVIEW, reason = BonusOver200 \<rparr>] else [])"

subsection \<open>The batch report\<close>

text \<open>
  The body of the loop of \<open>detectAnomalies\<close> up to the flags of one employee: the net pay
  is calculated first, and an error thrown there ends the whole run.
\<close>

definition employeeFlags ::
    "tax_rules \<Rightarrow> history_record list \<Rightarrow> employee list \<Rightarrow> employee \<Rightarrow> js_error + flag list" where
  "employeeFlags TAX_RULES historyDB proposedPayroll e =
     (case calculateNetPay TAX_RULES (Some e) of
        Inl err \<Rightarrow> Inl err
      | Inr proposedPay \<Rightarrow>
          Inr (detectHistoricalVariance e proposedPay historyDB @
               detectPeerVariance e proposedPayroll @
               detectAbsoluteRules e proposedPay))"

text \<open>The loop over the batch; \<open>allFlags\<close> is the array the loop pushes to.\<close>

fun detectLoop ::
    "tax_rules \<Rightarrow> history_record list \<Rightarrow> employee list \<Rightarrow> employee list \<Rightarrow>
     flag_group list \<Rightarrow> js_error + flag_group list" where
  "detectLoop TAX_RULES historyDB proposedPayroll [] allFlags = Inr allFlags"
| "detectLoop TAX_RULES historyDB proposedPayroll (e # rest) allFlags =
     (case employeeFlags TAX_RULES historyDB proposedPayroll e of
        Inl err \<Rightarrow> Inl err
      | Inr fs \<Rightarrow>
          detectLoop TAX_RULES historyDB proposedPayroll rest
            (if length fs > 0
             then allFlags @ [\<lparr> employee_id_g = employee_id e, name_g = name e, flags = fs \<rparr>]
             else allFlags))"

text \<open>
  \<open>detectAnomalies\<close>. The history store and the current period (the first seven
  characters of the clock's ISO date) are read from the outside and are parameters here.
\<close>

definition detectAnomalies ::
    "tax_rules \<Rightarrow> history_record list \<Rightarrow> string \<Rightarrow> employee list \<Rightarrow>
     js_error + anomaly_report" where
  "detectAnomalies TAX_RULES historyDB period proposedPayroll =
     (case detectLoop TAX_RULES historyDB proposedPayroll proposedPayroll [] of
        Inl err \<Rightarrow> Inl err
      | Inr allFlags \<Rightarrow>
          (let overallStatus =
                 (if list_ex (\<lambda>f. list_ex (\<lambda>fl. level fl = ANOMALY) (flags f)) allFlags
                  then ANOMALY_DETECTED
                  else if length allFlags > 0 then REVIEW_REQUIRED
                  else CLEAN)
           in Inr \<lparr> pay_period = period, status = overallStatus, report = allFlags \<rparr>))"

text \<open>
  The flag groups the loop appends for the employees \<open>es\<close>, written without the
  accumulator: one group for every employee with a non-empty flag list, in batch order.
\<close>

definition flag_groups ::
    "tax_rules \<Rightarrow> history_record list \<Rightarrow> employee list \<Rightarrow> employee list \<Rightarrow> flag_group list" where
  "flag_groups TAX_RULES historyDB proposedPayroll es =
     concat (map (\<lambda>e. case employeeFlags TAX_RULES historyDB proposedPayroll e of
                         Inl err \<Rightarrow> []
                       | Inr fs \<Rightarrow>
                           if fs = [] then []
                           else [\<lparr> employee_id_g = employee_id e, name_g = name e, flags = fs \<rparr>]) es)"

section \<open>Example data\<close>

text \<open>
  The rule table and the employee of the specification's scenario A: salary 80000, bonus
  10000, deductions 5000, located in Mumbai.
\<close>

definition scenario_professional_tax :: "string \<Rightarrow> pt_slab list option" where
  "scenario_professional_tax =
     [''Mumbai'' \<mapsto> [\<lparr> min_slab = Fin 10001, max_slab = Fin 9999999, tax = Fin 200 \<rparr>],
      ''default'' \<mapsto> [\<lparr> min_slab = Fin 0, max_slab = Fin 9999999, tax = Fin 0 \<rparr>]]"

definition scenario_rules :: tax_rules where
  "scenario_rules =
     \<lparr> professional_tax = Some scenario_professional_tax,
       income_tax_slabs = Some [\<lparr> min_slab = Fin 0, max_slab = Fin 9999999, rate = Fin 0.1 \<rparr>],
       social_security_percent = Some (Fin 0.12) \<rparr>"

definition scenario_employee :: employee where
  "scenario_employee =
     \<lparr> employee_id = Some ''e101'', name = Some ''Asha'', department = Some ''Engineering'',
       location = Some ''Mumbai'', salary = Some (Fin 80000), bonus = Some (Fin 10000),
       deductions = Some (Fin 5000) \<rparr>"

text \<open>A colleague of the scenario's employee: same department and location.\<close>

definition peer :: "string \<Rightarrow> real \<Rightarrow> employee" where
  "peer eid s = scenario_employee\<lparr>employee_id := Some eid, salary := Some (Fin s)\<rparr>"

text \<open>Slab tables in which the upper end of one slab is the lower end of the next.\<close>

definition boundary_income_slabs :: "income_slab list" where
  "boundary_income_slabs =
     [\<lparr> min_slab = Fin 0, max_slab = Fin 100000, rate = Fin 0.1 \<rparr>,
      \<lparr> min_slab = Fin 100000, max_slab = Fin 200000, rate = Fin 0.2 \<rparr>]"

definition boundary_pt_slabs :: "pt_slab list" where
  "boundary_pt_slabs =
     [\<lparr> min_slab = Fin 0, max_slab = Fin 100000, tax = Fin 175 \<rparr>,
      \<lparr> min_slab = Fin 100000, max_slab = Fin 200000, tax = Fin 200 \<rparr>]"


definition proposed :: "real \<Rightarrow> net_pay_result" where
  "proposed n =
     \<lparr> employee_id_r = Some ''e101'', gross_pay = Fin 90000, net_pay = Fin n,
       breakdown = \<lparr> company_tax = Fin 9000, social_security = Fin 10800,
                     professional_tax_b = Fin 200, personal_deductions = Some (Fin 5000),
                     total_deductions = Fin (90000 - n) \<rparr> \<rparr>"

section \<open>Properties of the number model\<close>

lemma js_add_NaN_right [simp]: "js_add x NaN = NaN"
  by (cases x) simp_all

lemma js_mul_NaN_right [simp]: "js_mul x NaN = NaN"
  by (cases x) simp_all

lemma js_sub_NaN_right [simp]: "js_sub x NaN = NaN"
  by (simp add: js_sub_def)

lemma js_sub_NaN_left [simp]: "js_sub NaN x = NaN"
  by (simp add: js_sub_def)

lemma js_sub_Fin [simp]: "js_sub (Fin a) (Fin b) = Fin (a - b)"
  by (simp add: js_sub_def)

lemma js_le_NaN_right [simp]: "js_le x NaN = False"
  by (cases x) simp_all

lemma js_lt_NaN_right [simp]: "js_lt x NaN = False"
  by (cases x) simp_all


section \<open>Properties of the net pay calculator\<close>

lemma in_slab_NaN [simp]: "in_slab NaN s = False"
  by (simp add: in_slab_def js_ge_def)


lemma find_in_slab_NaN [simp]: "List.find (in_slab NaN) slabs = None"
  by (simp add: find_None_iff)



lemma find_first_index:
  assumes "i < length xs" "P (xs ! i)" "\<forall>j<i. \<not> P (xs ! j)"
  shows "List.find P xs = Some (xs ! i)"
  using assms by (auto simp: find_Some_iff)





lemma locationRules_default:
  assumes "pt ''default'' = Some dflt"
    and "\<forall>l. location e = Some l \<longrightarrow> pt l \<noteq> None \<or> l \<notin> set object_prototype_keys"
  shows "\<exists>t. locationRules pt (location e) = SlabTable t"
proof (cases "location e")
  case None
  then show ?thesis
    using assms(1)
    by (simp add: locationRules_def object_prototype_keys_def split: option.splits)
next
  case (Some l)
  with assms show ?thesis
    by (auto simp: locationRules_def split: option.splits)
qed

text \<open>With the two slab sections and a slab table for the location, nothing is thrown.\<close>

lemma calculateNetPay_loaded:
  assumes "professional_tax TAX_RULES = Some pt" "income_tax_slabs TAX_RULES = Some slabs"
    and "locationRules pt (location e) = SlabTable t"
  shows "calculateNetPay TAX_RULES (Some e) =
     (let g = js_add (to_number (salary e)) (to_number (bonus e));
          ct = calculateIncomeTax g slabs;
          ss = js_mul g (to_number (social_security_percent TAX_RULES));
          ptax = calculateSlabTax g t;
          td = js_add (js_add (js_add ct ss) ptax) (to_number (deductions e))
      in Inr \<lparr> employee_id_r = employee_id e, gross_pay = g, net_pay = js_sub g td,
               breakdown = \<lparr> company_tax = ct, social_security = ss, professional_tax_b = ptax,
                             personal_deductions = deductions e, total_deductions = td \<rparr> \<rparr>)"
  using assms by (simp add: calculateNetPay_def Let_def)


text \<open>Conversely, a returned result was computed that way.\<close>

lemma calculateNetPay_Inr:
  assumes "calculateNetPay TAX_RULES (Some e) = Inr r"
  shows "\<exists>pt slabs t. professional_tax TAX_RULES = Some pt \<and>
           income_tax_slabs TAX_RULES = Some slabs \<and>
           locationRules pt (location e) = SlabTable t \<and>
           r = (let g = js_add (to_number (salary e)) (to_number (bonus e));
                    ct = calculateIncomeTax g slabs;
                    ss = js_mul g (to_number (social_security_percent TAX_RULES));
                    ptax = calculateSlabTax g t;
                    td = js_add (js_add (js_add ct ss) ptax) (to_number (deductions e))
                in \<lparr> employee_id_r = employee_id e, gross_pay = g, net_pay = js_sub g td,
                     breakdown = \<lparr> company_tax = ct, social_security = ss,
                                   professional_tax_b = ptax,
                                   personal_deductions = deductions e,
                                   total_deductions = td \<rparr> \<rparr>)"
  using assms
  by (auto simp: calculateNetPay_def Let_def split: option.splits location_rules.splits)

lemma scenario_rules_loaded:
  "professional_tax scenario_rules = Some scenario_professional_tax"
  "scenario_professional_tax ''default'' =
     Some [\<lparr> min_slab = Fin 0, max_slab = Fin 9999999, tax = Fin 0 \<rparr>]"
  "income_tax_slabs scenario_rules =
     Some [\<lparr> min_slab = Fin 0, max_slab = Fin 9999999, rate = Fin 0.1 \<rparr>]"
  "social_security_percent scenario_rules = Some (Fin 0.12)"
  by (simp_all add: scenario_rules_def scenario_professional_tax_def)

lemma scenario_locations:
  "\<forall>l. location scenario_employee = Some l \<longrightarrow>
         scenario_professional_tax l \<noteq> None \<or> l \<notin> set object_prototype_keys"
  "\<forall>l. location (peer eid s) = Some l \<longrightarrow>
         scenario_professional_tax l \<noteq> None \<or> l \<notin> set object_prototype_keys"
  by (simp_all add: scenario_employee_def peer_def scenario_professional_tax_def)

lemmas eval_net_pay = calculateNetPay_def locationRules_def object_prototype_keys_def
  calculateIncomeTax_def calculateSlabTax_def in_slab_def js_ge_def scenario_rules_def
  scenario_professional_tax_def scenario_employee_def Let_def

text \<open>A location named like an inherited property makes the calculator throw.\<close>

lemma inherited_location_throws:
  "calculateNetPay scenario_rules (Some (scenario_employee\<lparr>location := Some ''toString''\<rparr>)) =
     Inl TypeError"
  by (simp add: eval_net_pay)

section \<open>Properties of the anomaly strategies\<close>





section \<open>Properties of the batch loop\<close>

lemma detectLoop_Inr:
  "detectLoop R H batch es acc = Inr out \<Longrightarrow>
     (\<forall>e\<in>set es. \<exists>fs. employeeFlags R H batch e = Inr fs) \<and>
     out = acc @ flag_groups R H batch es"
proof (induction es arbitrary: acc)
  case Nil
  then show ?case by (simp add: flag_groups_def)
next
  case (Cons e es)
  from Cons.prems obtain fs where fs: "employeeFlags R H batch e = Inr fs"
    by (auto split: sum.splits)
  let ?acc = "if length fs > 0
             then acc @ [\<lparr> employee_id_g = employee_id e, name_g = name e, flags = fs \<rparr>]
             else acc"
  from Cons.prems fs have "detectLoop R H batch es ?acc = Inr out"
    by simp
  from Cons.IH [OF this] fs show ?case
    by (auto simp: flag_groups_def)
qed

lemma detectLoop_returns:
  "\<forall>e\<in>set es. \<exists>fs. employeeFlags R H batch e = Inr fs \<Longrightarrow>
     \<exists>out. detectLoop R H batch es acc = Inr out"
  by (induction es arbitrary: acc) auto

lemma list_ex_level:
  "list_ex (\<lambda>fl. level fl = l) fs \<longleftrightarrow> l \<in> set (map level fs)"
  by (induction fs) auto

lemma flag_groups_Cons:
  "employeeFlags R H batch e = Inr fs \<Longrightarrow>
   flag_groups R H batch (e # es) =
     (if fs = [] then [] else [\<lparr> employee_id_g = employee_id e, name_g = name e, flags = fs \<rparr>]) @
     flag_groups R H batch es"
  by (simp add: flag_groups_def)

lemma flag_groups_anomaly:
  assumes "\<forall>e\<in>set es. \<exists>fs. employeeFlags R H batch e = Inr fs"
  shows "list_ex (\<lambda>f. list_ex (\<lambda>fl. level fl = ANOMALY) (flags f)) (flag_groups R H batch es) \<longleftrightarrow>
     (\<exists>e\<in>set es. \<exists>fs. employeeFlags R H batch e = Inr fs \<and> ANOMALY \<in> set (map level fs))"
  using assms
proof (induction es)
  case Nil
  then show ?case by (simp add: flag_groups_def)
next
  case (Cons e es)
  then obtain fs where fs: "employeeFlags R H batch e = Inr fs" by auto
  have IH: "list_ex (\<lambda>f. list_ex (\<lambda>fl. level fl = ANOMALY) (flags f)) (flag_groups R H batch es) \<longleftrightarrow>
     (\<exists>e\<in>set es. \<exists>fs. employeeFlags R H batch e = Inr fs \<and> ANOMALY \<in> set (map level fs))"
    using Cons by simp
  have hd: "list_ex (\<lambda>f. list_ex (\<lambda>fl. level fl = ANOMALY) (flags f))
       (if fs = [] then [] else [\<lparr> employee_id_g = employee_id e, name_g = name e, flags = fs \<rparr>]) \<longleftrightarrow>
     ANOMALY \<in> set (map level fs)"
    by (simp add: list_ex_level)
  show ?case
    unfolding flag_groups_Cons [OF fs] list_ex_append hd IH
    by (simp add: fs)
qed

lemma flag_groups_nonempty:
  assumes "\<forall>e\<in>set es. \<exists>fs. employeeFlags R H batch e = Inr fs"
  shows "flag_groups R H batch es \<noteq> [] \<longleftrightarrow>
     (\<exists>e\<in>set es. \<exists>fs. employeeFlags R H batch e = Inr fs \<and> fs \<noteq> [])"
  using assms
proof (induction es)
  case Nil
  then show ?case by (simp add: flag_groups_def)
next
  case (Cons e es)
  then obtain fs where fs: "employeeFlags R H batch e = Inr fs" by auto
  have IH: "flag_groups R H batch es \<noteq> [] \<longleftrightarrow>
     (\<exists>e\<in>set es. \<exists>fs. employeeFlags R H batch e = Inr fs \<and> fs \<noteq> [])"
    using Cons by simp
  show ?case
    unfolding flag_groups_Cons [OF fs]
    using IH by (simp add: fs)
qed

text \<open>
  With a loaded rule table and no employee whose location reads an inherited property,
  the calculator never throws, so the batch run returns.
\<close>

lemma employeeFlags_returns:
  assumes "professional_tax TAX_RULES = Some pt" "pt ''default'' = Some dflt"
    and "income_tax_slabs TAX_RULES = Some slabs"
    and "\<forall>l. location e = Some l \<longrightarrow> pt l \<noteq> None \<or> l \<notin> set object_prototype_keys"
  shows "\<exists>fs. employeeFlags TAX_RULES historyDB batch e = Inr fs"
proof -
  obtain t where "locationRules pt (location e) = SlabTable t"
    using locationRules_default [OF assms(2,4)] by blast
  then show ?thesis
    using assms(1,3) by (simp add: employeeFlags_def calculateNetPay_loaded Let_def)
qed

lemma detectAnomalies_returns:
  assumes "professional_tax TAX_RULES = Some pt" "pt ''default'' = Some dflt"
    and "income_tax_slabs TAX_RULES = Some slabs"
    and "\<forall>e\<in>set batch. \<forall>l. location e = Some l \<longrightarrow>
           pt l \<noteq> None \<or> l \<notin> set object_prototype_keys"
  shows "\<exists>rep. detectAnomalies TAX_RULES historyDB period batch = Inr rep"
proof -
  have "\<forall>e\<in>set batch. \<exists>fs. employeeFlags TAX_RULES historyDB batch e = Inr fs"
    using employeeFlags_returns [OF assms(1,2,3)] assms(4) by blast
  from detectLoop_returns [OF this, of "[]"] show ?thesis
    by (auto simp: detectAnomalies_def Let_def)
qed

lemmas eval_flags = employeeFlags_def eval_net_pay js_gt_def
  detectHistoricalVariance_def employeeHistory_def detectPeerVariance_def peerGroup_def
  avgPeerSalary_def detectAbsoluteRules_def peer_def

section \<open>Claims about the net pay calculator\<close>

text \<open>
  Claim C1. Let the employee's salary, bonus and deductions be numbers and the rule table
  have its social-security percent. In every result that \<open>calculateNetPay\<close> returns,
  \<open>gross_pay\<close> is salary plus bonus, \<open>social_security\<close> is gross pay times the
  social-security percent, \<open>personal_deductions\<close> is the employee's deductions,
  \<open>total_deductions\<close> is the sum of company tax, social security, professional tax and
  personal deductions, and \<open>net_pay\<close> is gross pay minus total deductions. A result is
  returned when the two slab sections and the default professional-tax table are there
  and the employee's location, if it is no key of the configuration, does not name an
  inherited property. Nothing requires the net pay to be non-negative: the instance
  after the theorem returns a net pay of -30000.
\<close>

theorem calculateNetPay_formulas:
  assumes "salary e = Some s" "bonus e = Some b" "deductions e = Some d"
    and "social_security_percent TAX_RULES = Some p"
  shows "(\<forall>r. calculateNetPay TAX_RULES (Some e) = Inr r \<longrightarrow>
            gross_pay r = js_add s b \<and>
            social_security (breakdown r) = js_mul (gross_pay r) p \<and>
            personal_deductions (breakdown r) = Some d \<and>
            total_deductions (breakdown r) =
              js_add (js_add (js_add (company_tax (breakdown r)) (social_security (breakdown r)))
                        (professional_tax_b (breakdown r))) d \<and>
            net_pay r = js_sub (gross_pay r) (total_deductions (breakdown r))) \<and>
         (professional_tax TAX_RULES = Some pt \<and> pt ''default'' = Some dflt \<and>
          income_tax_slabs TAX_RULES = Some slabs \<and>
          (\<forall>l. location e = Some l \<longrightarrow> pt l \<noteq> None \<or> l \<notin> set object_prototype_keys) \<longrightarrow>
            (\<exists>r. calculateNetPay TAX_RULES (Some e) = Inr r))"
proof -
  have eqs: "gross_pay r = js_add s b \<and>
            social_security (breakdown r) = js_mul (gross_pay r) p \<and>
            personal_deductions (breakdown r) = Some d \<and>
            total_deductions (breakdown r) =
              js_add (js_add (js_add (company_tax (breakdown r)) (social_security (breakdown r)))
                        (professional_tax_b (breakdown r))) d \<and>
            net_pay r = js_sub (gross_pay r) (total_deductions (breakdown r))"
    if "calculateNetPay TAX_RULES (Some e) = Inr r" for r
    using calculateNetPay_Inr [OF that] assms by (auto simp: Let_def)
  have ret: "\<exists>r. calculateNetPay TAX_RULES (Some e) = Inr r"
    if a: "professional_tax TAX_RULES = Some pt \<and> pt ''default'' = Some dflt \<and>
          income_tax_slabs TAX_RULES = Some slabs \<and>
          (\<forall>l. location e = Some l \<longrightarrow> pt l \<noteq> None \<or> l \<notin> set object_prototype_keys)"
  proof -
    obtain t where "locationRules pt (location e) = SlabTable t"
      using a locationRules_default [of pt dflt e] by blast
    with a show ?thesis
      by (simp add: calculateNetPay_loaded Let_def)
  qed
  from eqs ret show ?thesis
    by blast
qed

theorem calculateNetPay_formulas_witness:
  "\<exists>r. calculateNetPay scenario_rules
          (Some (scenario_employee\<lparr>deductions := Some (Fin 100000)\<rparr>)) = Inr r \<and>
       gross_pay r = Fin 90000 \<and>
       social_security (breakdown r) = Fin 10800 \<and>
       personal_deductions (breakdown r) = Some (Fin 100000) \<and>
       total_deductions (breakdown r) = Fin 120000 \<and>
       net_pay r = Fin (- 30000)"
proof -
  let ?e = "scenario_employee\<lparr>deductions := Some (Fin 100000)\<rparr>"
  have h: "salary ?e = Some (Fin 80000)" "bonus ?e = Some (Fin 10000)"
      "deductions ?e = Some (Fin 100000)"
    by (simp_all add: scenario_employee_def)
  have loc: "\<forall>l. location ?e = Some l \<longrightarrow>
      scenario_professional_tax l \<noteq> None \<or> l \<notin> set object_prototype_keys"
    using scenario_locations(1) by simp
  from calculateNetPay_formulas [OF h scenario_rules_loaded(4),
      of scenario_professional_tax
         "[\<lparr> min_slab = Fin 0, max_slab = Fin 9999999, tax = Fin 0 \<rparr>]"
         "[\<lparr> min_slab = Fin 0, max_slab = Fin 9999999, rate = Fin 0.1 \<rparr>]"]
    scenario_rules_loaded(1,2,3) loc
  obtain r where r: "calculateNetPay scenario_rules (Some ?e) = Inr r"
      and eqs: "gross_pay r = js_add (Fin 80000) (Fin 10000)"
        "social_security (breakdown r) = js_mul (gross_pay r) (Fin 0.12)"
        "personal_deductions (breakdown r) = Some (Fin 100000)"
        "total_deductions (breakdown r) =
              js_add (js_add (js_add (company_tax (breakdown r)) (social_security (breakdown r)))
                        (professional_tax_b (breakdown r))) (Fin 100000)"
        "net_pay r = js_sub (gross_pay r) (total_deductions (breakdown r))"
    by blast
  have taxes: "company_tax (breakdown r) = Fin 9000" "professional_tax_b (breakdown r) = Fin 200"
    using r by (auto simp: eval_net_pay)
  from r eqs taxes show ?thesis
    by simp
qed



text \<open>
  Claim C10. When several slabs contain the gross pay, both lookups apply the one with
  the smallest index: if the slab at index \<open>i\<close> contains the gross pay and no slab before
  it does, the income tax is computed with the rate of that slab, and likewise the slab
  tax is the flat amount of the first slab that contains the gross pay.
\<close>

theorem first_matching_slab_wins:
  "(i < length slabs \<and> in_slab g (slabs ! i) \<and> (\<forall>j<i. \<not> in_slab g (slabs ! j)) \<longrightarrow>
      calculateIncomeTax g slabs = js_mul g (rate (slabs ! i))) \<and>
   (k < length ptslabs \<and> in_slab g (ptslabs ! k) \<and> (\<forall>j<k. \<not> in_slab g (ptslabs ! j)) \<longrightarrow>
      calculateSlabTax g ptslabs = tax (ptslabs ! k))"
proof (intro conjI impI)
  assume "i < length slabs \<and> in_slab g (slabs ! i) \<and> (\<forall>j<i. \<not> in_slab g (slabs ! j))"
  then have "List.find (in_slab g) slabs = Some (slabs ! i)"
    by (simp add: find_first_index)
  then show "calculateIncomeTax g slabs = js_mul g (rate (slabs ! i))"
    by (simp add: calculateIncomeTax_def)
next
  assume "k < length ptslabs \<and> in_slab g (ptslabs ! k) \<and> (\<forall>j<k. \<not> in_slab g (ptslabs ! j))"
  then have "List.find (in_slab g) ptslabs = Some (ptslabs ! k)"
    by (simp add: find_first_index)
  then show "calculateSlabTax g ptslabs = tax (ptslabs ! k)"
    by (simp add: calculateSlabTax_def)
qed

text \<open>
  A gross pay of 100000 is the upper end of the first slab and the lower end of the
  second: the first slab's rate of 0.1 and flat amount of 175 apply.
\<close>

theorem first_matching_slab_wins_witness:
  "in_slab (Fin 100000) (boundary_income_slabs ! 0) \<and>
   in_slab (Fin 100000) (boundary_income_slabs ! 1) \<and>
   calculateIncomeTax (Fin 100000) boundary_income_slabs = Fin 10000 \<and>
   in_slab (Fin 100000) (boundary_pt_slabs ! 0) \<and>
   in_slab (Fin 100000) (boundary_pt_slabs ! 1) \<and>
   calculateSlabTax (Fin 100000) boundary_pt_slabs = Fin 175"
proof -
  have h: "in_slab (Fin 100000) (boundary_income_slabs ! 0)"
      "in_slab (Fin 100000) (boundary_income_slabs ! 1)"
      "in_slab (Fin 100000) (boundary_pt_slabs ! 0)"
      "in_slab (Fin 100000) (boundary_pt_slabs ! 1)"
    by (simp_all add: boundary_income_slabs_def boundary_pt_slabs_def in_slab_def js_ge_def)
  have "calculateIncomeTax (Fin 100000) boundary_income_slabs =
          js_mul (Fin 100000) (rate (boundary_income_slabs ! 0))"
    and "calculateSlabTax (Fin 100000) boundary_pt_slabs = tax (boundary_pt_slabs ! 0)"
    using first_matching_slab_wins [of 0 boundary_income_slabs "Fin 100000" 0 boundary_pt_slabs] h
    by (simp_all add: boundary_income_slabs_def boundary_pt_slabs_def)
  then show ?thesis
    using h by (simp add: boundary_income_slabs_def boundary_pt_slabs_def)
qed

text \<open>
  Claim C5, as the code has it. \<open>calculateNetPay\<close> throws when the employee argument is
  absent, when the rule table has no \<open>professional_tax\<close> section (the one section the
  guard tests), and, with the type error of calling \<open>find\<close> on \<open>undefined\<close>, when the
  \<open>income_tax_slabs\<close> section is missing.
\<close>

theorem calculateNetPay_fails:
  "calculateNetPay TAX_RULES None = Inl (Error ''Employee data is required.'') \<and>
   (professional_tax TAX_RULES = None \<longrightarrow>
      calculateNetPay TAX_RULES (Some e) = Inl (Error ''Tax rules are not loaded.'')) \<and>
   (professional_tax TAX_RULES \<noteq> None \<and> income_tax_slabs TAX_RULES = None \<longrightarrow>
      calculateNetPay TAX_RULES (Some e) = Inl TypeError)"
  by (auto simp: calculateNetPay_def Let_def)

theorem calculateNetPay_fails_witness:
  "calculateNetPay scenario_rules None = Inl (Error ''Employee data is required.'') \<and>
   calculateNetPay \<lparr> professional_tax = None, income_tax_slabs = None,
                     social_security_percent = None \<rparr> (Some scenario_employee) =
     Inl (Error ''Tax rules are not loaded.'') \<and>
   calculateNetPay (scenario_rules\<lparr>income_tax_slabs := None\<rparr>) (Some scenario_employee) =
     Inl TypeError"
  using calculateNetPay_fails [of scenario_rules scenario_employee]
    calculateNetPay_fails [of "\<lparr> professional_tax = None, income_tax_slabs = None,
                     social_security_percent = None \<rparr>" scenario_employee]
    calculateNetPay_fails [of "scenario_rules\<lparr>income_tax_slabs := None\<rparr>" scenario_employee]
  by (simp add: scenario_rules_def)

text \<open>
  A rule table that lacks only \<open>social_security_percent\<close> is not refused: the missing
  percent is coerced to NaN and a result is returned.
\<close>

theorem missing_social_security_not_rejected:
  "calculateNetPay (scenario_rules\<lparr>social_security_percent := None\<rparr>) (Some scenario_employee) =
     Inr \<lparr> employee_id_r = Some ''e101'', gross_pay = Fin 90000, net_pay = NaN,
           breakdown = \<lparr> company_tax = Fin 9000, social_security = NaN,
                         professional_tax_b = Fin 200,
                         personal_deductions = Some (Fin 5000),
                         total_deductions = NaN \<rparr> \<rparr>"
  by (simp add: eval_net_pay)

text \<open>
  Claim C9, as the code has it. \<open>calculateNetPay\<close> checks no field of a record that is
  present. In every result it returns, a missing salary or bonus has made the gross pay
  NaN, and a missing salary, bonus or deductions has made the net pay NaN. It returns a
  result whenever the slab sections and the default table are loaded and the location,
  if it is no key of the configuration, does not name an inherited property; no missing
  field makes it throw.
\<close>

theorem calculateNetPay_coerces_missing:
  "(\<forall>r. calculateNetPay TAX_RULES (Some e) = Inr r \<longrightarrow>
      (salary e = None \<or> bonus e = None \<longrightarrow> gross_pay r = NaN) \<and>
      (salary e = None \<or> bonus e = None \<or> deductions e = None \<longrightarrow> net_pay r = NaN)) \<and>
   (professional_tax TAX_RULES = Some pt \<and> pt ''default'' = Some dflt \<and>
    income_tax_slabs TAX_RULES = Some slabs \<and>
    (\<forall>l. location e = Some l \<longrightarrow> pt l \<noteq> None \<or> l \<notin> set object_prototype_keys) \<longrightarrow>
      (\<exists>r. calculateNetPay TAX_RULES (Some e) = Inr r))"
proof -
  have nan: "(salary e = None \<or> bonus e = None \<longrightarrow> gross_pay r = NaN) \<and>
      (salary e = None \<or> bonus e = None \<or> deductions e = None \<longrightarrow> net_pay r = NaN)"
    if "calculateNetPay TAX_RULES (Some e) = Inr r" for r
    using calculateNetPay_Inr [OF that] by (auto simp: Let_def)
  have ret: "\<exists>r. calculateNetPay TAX_RULES (Some e) = Inr r"
    if a: "professional_tax TAX_RULES = Some pt \<and> pt ''default'' = Some dflt \<and>
          income_tax_slabs TAX_RULES = Some slabs \<and>
          (\<forall>l. location e = Some l \<longrightarrow> pt l \<noteq> None \<or> l \<notin> set object_prototype_keys)"
  proof -
    obtain t where "locationRules pt (location e) = SlabTable t"
      using a locationRules_default [of pt dflt e] by blast
    with a show ?thesis
      by (simp add: calculateNetPay_loaded Let_def)
  qed
  from nan ret show ?thesis
    by blast
qed

theorem calculateNetPay_coerces_missing_witness:
  "\<exists>r. calculateNetPay scenario_rules (Some (scenario_employee\<lparr>deductions := None\<rparr>)) = Inr r \<and>
       gross_pay r = Fin 90000 \<and> net_pay r = NaN"
  using calculateNetPay_coerces_missing [of scenario_rules
      "scenario_employee\<lparr>deductions := None\<rparr>" scenario_professional_tax
      "[\<lparr> min_slab = Fin 0, max_slab = Fin 9999999, tax = Fin 0 \<rparr>]"
      "[\<lparr> min_slab = Fin 0, max_slab = Fin 9999999, rate = Fin 0.1 \<rparr>]"]
  by (simp add: eval_net_pay)

text \<open>The scenario's employee without a salary is not rejected.\<close>

theorem missing_salary_not_rejected:
  "calculateNetPay scenario_rules (Some (scenario_employee\<lparr>salary := None\<rparr>)) =
     Inr \<lparr> employee_id_r = Some ''e101'', gross_pay = NaN, net_pay = NaN,
           breakdown = \<lparr> company_tax = Fin 0, social_security = NaN,
                         professional_tax_b = Fin 0,
                         personal_deductions = Some (Fin 5000),
                         total_deductions = NaN \<rparr> \<rparr>"
  by (simp add: eval_net_pay)

section \<open>Claims about the anomaly strategies\<close>








text \<open>
  Claim C8. The absolute-rule strategy returns an ANOMALY flag exactly when the net pay
  is below 0 and a REVIEW flag exactly when the bonus is above twice the salary. Each
  check adds one flag on its own, so the result has 0, 1 or 2 flags. On finite numbers
  the two comparisons are those of the reals.
\<close>

theorem detectAbsoluteRules_independent:
  "(ANOMALY \<in> set (map level (detectAbsoluteRules e p)) \<longleftrightarrow> js_lt (net_pay p) (Fin 0)) \<and>
   (REVIEW \<in> set (map level (detectAbsoluteRules e p)) \<longleftrightarrow>
      js_gt (to_number (bonus e)) (js_mul (to_number (salary e)) (Fin 2))) \<and>
   length (detectAbsoluteRules e p) =
     (if js_lt (net_pay p) (Fin 0) then 1 else 0) +
     (if js_gt (to_number (bonus e)) (js_mul (to_number (salary e)) (Fin 2)) then 1 else 0) \<and>
   length (detectAbsoluteRules e p) \<le> 2 \<and>
   (net_pay p = Fin n \<longrightarrow>
      (ANOMALY \<in> set (map level (detectAbsoluteRules e p)) \<longleftrightarrow> n < 0)) \<and>
   (salary e = Some (Fin s) \<and> bonus e = Some (Fin b) \<longrightarrow>
      (REVIEW \<in> set (map level (detectAbsoluteRules e p)) \<longleftrightarrow> b > s * 2))"
proof -
  have an: "ANOMALY \<in> set (map level (detectAbsoluteRules e p)) \<longleftrightarrow> js_lt (net_pay p) (Fin 0)"
    by (auto simp: detectAbsoluteRules_def)
  have re: "REVIEW \<in> set (map level (detectAbsoluteRules e p)) \<longleftrightarrow>
      js_gt (to_number (bonus e)) (js_mul (to_number (salary e)) (Fin 2))"
    by (auto simp: detectAbsoluteRules_def)
  have len: "length (detectAbsoluteRules e p) =
     (if js_lt (net_pay p) (Fin 0) then 1 else 0) +
     (if js_gt (to_number (bonus e)) (js_mul (to_number (salary e)) (Fin 2)) then 1 else 0)"
    by (simp add: detectAbsoluteRules_def)
  have le: "length (detectAbsoluteRules e p) \<le> 2"
    unfolding len by simp
  have fin_an: "net_pay p = Fin n \<longrightarrow>
      (ANOMALY \<in> set (map level (detectAbsoluteRules e p)) \<longleftrightarrow> n < 0)"
    unfolding an by simp
  have fin_re: "salary e = Some (Fin s) \<and> bonus e = Some (Fin b) \<longrightarrow>
      (REVIEW \<in> set (map level (detectAbsoluteRules e p)) \<longleftrightarrow> b > s * 2)"
    unfolding re by (simp add: js_gt_def)
  from an re len le fin_an fin_re show ?thesis
    by (intro conjI)
qed

text \<open>
  Both checks fire for a bonus of 200000 on a salary of 80000 with a net pay of -1000;
  none fires for scenario A.
\<close>

theorem detectAbsoluteRules_independent_witness:
  "map level (detectAbsoluteRules (scenario_employee\<lparr>bonus := Some (Fin 200000)\<rparr>)
      (proposed (- 1000))) = [ANOMALY, REVIEW] \<and>
   detectAbsoluteRules scenario_employee (proposed 65000) = []"
  using
    detectAbsoluteRules_independent [of "scenario_employee\<lparr>bonus := Some (Fin 200000)\<rparr>"
      "proposed (- 1000)" "- 1000" 80000 200000]
    detectAbsoluteRules_independent [of scenario_employee "proposed 65000" 65000 80000 10000]
  by (simp add: detectAbsoluteRules_def scenario_employee_def proposed_def js_gt_def)

section \<open>Claims about the batch report\<close>

text \<open>
  Claim C3. Whenever \<open>detectAnomalies\<close> returns a report, its status is
  \<open>ANOMALY_DETECTED\<close> if and only if the flag list of some employee of the batch contains
  a flag of level ANOMALY; it is \<open>REVIEW_REQUIRED\<close> if and only if no employee has an
  ANOMALY flag and some employee has at least one flag; and it is \<open>CLEAN\<close> if and only if
  every employee's flag list is empty. The flag list of an employee is the concatenation
  of the three strategies' flags on the employee's calculated net pay.
\<close>

theorem detectAnomalies_status:
  assumes "detectAnomalies TAX_RULES historyDB period batch = Inr rep"
  shows "(status rep = ANOMALY_DETECTED \<longleftrightarrow>
            (\<exists>e\<in>set batch. \<exists>fs. employeeFlags TAX_RULES historyDB batch e = Inr fs \<and>
                                ANOMALY \<in> set (map level fs))) \<and>
         (status rep = REVIEW_REQUIRED \<longleftrightarrow>
            \<not> (\<exists>e\<in>set batch. \<exists>fs. employeeFlags TAX_RULES historyDB batch e = Inr fs \<and>
                                ANOMALY \<in> set (map level fs)) \<and>
            (\<exists>e\<in>set batch. \<exists>fs. employeeFlags TAX_RULES historyDB batch e = Inr fs \<and> fs \<noteq> [])) \<and>
         (status rep = CLEAN \<longleftrightarrow>
            (\<forall>e\<in>set batch. employeeFlags TAX_RULES historyDB batch e = Inr []))"
proof -
  from assms obtain out where out: "detectLoop TAX_RULES historyDB batch batch [] = Inr out"
    by (auto simp: detectAnomalies_def split: sum.splits)
  from detectLoop_Inr [OF out]
  have all: "\<forall>e\<in>set batch. \<exists>fs. employeeFlags TAX_RULES historyDB batch e = Inr fs"
    and groups: "out = flag_groups TAX_RULES historyDB batch batch"
    by simp_all
  define A where "A \<longleftrightarrow>
    (\<exists>e\<in>set batch. \<exists>fs. employeeFlags TAX_RULES historyDB batch e = Inr fs \<and>
                        ANOMALY \<in> set (map level fs))"
  define F where "F \<longleftrightarrow>
    (\<exists>e\<in>set batch. \<exists>fs. employeeFlags TAX_RULES historyDB batch e = Inr fs \<and> fs \<noteq> [])"
  have a: "list_ex (\<lambda>f. list_ex (\<lambda>fl. level fl = ANOMALY) (flags f)) out \<longleftrightarrow> A"
    unfolding groups A_def by (rule flag_groups_anomaly [OF all])
  have f: "0 < length out \<longleftrightarrow> F"
    unfolding groups F_def using flag_groups_nonempty [OF all] by simp
  have "rep = \<lparr> pay_period = period,
                status = (if list_ex (\<lambda>f. list_ex (\<lambda>fl. level fl = ANOMALY) (flags f)) out
                          then ANOMALY_DETECTED
                          else if length out > 0 then REVIEW_REQUIRED else CLEAN),
                report = out \<rparr>"
    using assms by (simp add: detectAnomalies_def out del: length_greater_0_conv)
  then have "status rep =
      (if list_ex (\<lambda>f. list_ex (\<lambda>fl. level fl = ANOMALY) (flags f)) out then ANOMALY_DETECTED
       else if length out > 0 then REVIEW_REQUIRED else CLEAN)"
    by (simp del: length_greater_0_conv)
  then have st: "status rep = (if A then ANOMALY_DETECTED else if F then REVIEW_REQUIRED else CLEAN)"
    unfolding a f .
  have AF: "A \<Longrightarrow> F"
    unfolding A_def F_def by fastforce
  have nF: "\<not> F \<longleftrightarrow> (\<forall>e\<in>set batch. employeeFlags TAX_RULES historyDB batch e = Inr [])"
    unfolding F_def using all by force
  have "(status rep = ANOMALY_DETECTED \<longleftrightarrow> A) \<and>
        (status rep = REVIEW_REQUIRED \<longleftrightarrow> \<not> A \<and> F) \<and>
        (status rep = CLEAN \<longleftrightarrow> \<not> F)"
    using AF by (auto simp: st)
  then show ?thesis
    unfolding nF unfolding A_def F_def .
qed

text \<open>
  Three batches under the scenario's rules and an empty history: a salary of 130000
  among peers earning 30000 and 50000 makes the report \<open>ANOMALY_DETECTED\<close>, a salary of
  70000 makes it \<open>REVIEW_REQUIRED\<close>, and the scenario's employee alone is \<open>CLEAN\<close>.
\<close>

theorem detectAnomalies_status_witness:
  "(\<exists>rep. detectAnomalies scenario_rules [] ''2025-11''
            [peer ''e101'' 130000, peer ''e102'' 30000, peer ''e103'' 50000] = Inr rep \<and>
          status rep = ANOMALY_DETECTED) \<and>
   (\<exists>rep. detectAnomalies scenario_rules [] ''2025-11''
            [peer ''e101'' 70000, peer ''e102'' 30000, peer ''e103'' 50000] = Inr rep \<and>
          status rep = REVIEW_REQUIRED) \<and>
   (\<exists>rep. detectAnomalies scenario_rules [] ''2025-11'' [scenario_employee] = Inr rep \<and>
          status rep = CLEAN)"
proof (intro conjI)
  let ?b = "[peer ''e101'' 130000, peer ''e102'' 30000, peer ''e103'' 50000]"
  have "\<forall>e\<in>set ?b. \<forall>l. location e = Some l \<longrightarrow>
      scenario_professional_tax l \<noteq> None \<or> l \<notin> set object_prototype_keys"
    using scenario_locations by simp
  from detectAnomalies_returns [OF scenario_rules_loaded(1,2,3) this]
  obtain rep where r: "detectAnomalies scenario_rules [] ''2025-11'' ?b = Inr rep"
    by blast
  have "\<exists>fs. employeeFlags scenario_rules [] ?b (peer ''e101'' 130000) = Inr fs \<and>
          ANOMALY \<in> set (map level fs)"
    by (simp add: eval_flags)
  with detectAnomalies_status [OF r] have "status rep = ANOMALY_DETECTED"
    by simp
  with r show "\<exists>rep. detectAnomalies scenario_rules [] ''2025-11'' ?b = Inr rep \<and>
      status rep = ANOMALY_DETECTED"
    by blast
next
  let ?b = "[peer ''e101'' 70000, peer ''e102'' 30000, peer ''e103'' 50000]"
  have "\<forall>e\<in>set ?b. \<forall>l. location e = Some l \<longrightarrow>
      scenario_professional_tax l \<noteq> None \<or> l \<notin> set object_prototype_keys"
    using scenario_locations by simp
  from detectAnomalies_returns [OF scenario_rules_loaded(1,2,3) this]
  obtain rep where r: "detectAnomalies scenario_rules [] ''2025-11'' ?b = Inr rep"
    by blast
  have "employeeFlags scenario_rules [] ?b (peer ''e101'' 70000) =
          Inr [\<lparr> level = REVIEW,
                 reason = SalaryPeer1_5x (Fin 70000) (Fin 40000) (Some ''Engineering'')
                            (Some ''Mumbai'') \<rparr>]"
    "employeeFlags scenario_rules [] ?b (peer ''e102'' 30000) = Inr []"
    "employeeFlags scenario_rules [] ?b (peer ''e103'' 50000) = Inr []"
    by (simp_all add: eval_flags)
  with detectAnomalies_status [OF r] have "status rep = REVIEW_REQUIRED"
    by simp
  with r show "\<exists>rep. detectAnomalies scenario_rules [] ''2025-11'' ?b = Inr rep \<and>
      status rep = REVIEW_REQUIRED"
    by blast
next
  have "\<forall>e\<in>set [scenario_employee]. \<forall>l. location e = Some l \<longrightarrow>
      scenario_professional_tax l \<noteq> None \<or> l \<notin> set object_prototype_keys"
    using scenario_locations by simp
  from detectAnomalies_returns [OF scenario_rules_loaded(1,2,3) this]
  obtain rep where r: "detectAnomalies scenario_rules [] ''2025-11'' [scenario_employee] = Inr rep"
    by blast
  have "employeeFlags scenario_rules [] [scenario_employee] scenario_employee = Inr []"
    by (simp add: eval_flags)
  with detectAnomalies_status [OF r] have "status rep = CLEAN"
    by simp
  with r show "\<exists>rep. detectAnomalies scenario_rules [] ''2025-11'' [scenario_employee] = Inr rep \<and>
      status rep = CLEAN"
    by blast
qed

end
